theory Spec2Isabelle
  imports Main "HOL-Library.Word"
begin

section \<open>The loader of the packet-forwarding program (src/loader/prog.c)\<close>

text \<open>
  The loader is one C function, \<open>main\<close>, and one helper, \<open>unpin_needed_maps\<close>.  Everything
  else it calls (the command-line and configuration parsers, libbpf/libxdp, the logger, the
  C library) lives outside the file.  The embedding therefore treats each such call as an
  event of a trace, and takes what the call returns from an environment: a record of the
  answers the outside world gives during start-up, one record per pass through the control
  loop, and one record for shut-down.  The control flow, the guards, the order of the calls
  and the arithmetic are those of the C text.

  Integers: C \<open>int\<close> values (return codes, configuration fields) are \<open>int\<close>; \<open>time_t\<close> is a
  signed 64-bit count of seconds, written as \<open>int\<close> because the differences and comparisons
  the program makes on clock readings stay far inside that range; the two \<open>unsigned int\<close>
  variables \<open>end_time\<close> and \<open>sleep_time\<close>, whose initialisers truncate a wider value, and the
  \<open>unsigned int\<close> result of \<open>if_nametoindex\<close> are \<open>32 word\<close>.
\<close>

type_synonym time_t = int

datatype exit_code = EXIT_SUCCESS | EXIT_FAILURE

text \<open>Path macros of headers that are not part of the file; kept symbolic.\<close>

datatype path_macro = XDP_OBJ_PATH | XDP_MAP_PIN_DIR

text \<open>\<open>config__t\<close>: the fields \<open>main\<close> reads.  \<open>interface\<close> is a C string that may be NULL.\<close>

record config =
  verbose :: int
  interface :: "string option"
  pin_maps :: int
  update_time :: int
  no_stats :: int
  stats_per_second :: int
  stdout_update_time :: int

text \<open>\<open>cli_t\<close> after \<open>parse_cli\<close> has filled it in.\<close>

record cli =
  cli_cfg_file :: string
  cli_help :: int
  cli_list :: int
  cli_skb :: int
  cli_offload :: int
  cli_time :: int
  cli_verbose :: int
  cli_log_file :: "string option"
  cli_interface :: "string option"
  cli_pin_maps :: int
  cli_update_time :: int
  cli_no_stats :: int
  cli_stats_per_second :: int
  cli_stdout_update_time :: int

text \<open>\<open>config_overrides_t\<close>, built from the command line (lines 75--83).\<close>

record config_overrides =
  ov_verbose :: int
  ov_log_file :: "string option"
  ov_interface :: "string option"
  ov_pin_maps :: int
  ov_update_time :: int
  ov_no_stats :: int
  ov_stats_per_second :: int
  ov_stdout_update_time :: int

definition cfg_overrides :: "cli \<Rightarrow> config_overrides" where
  "cfg_overrides c =
     \<lparr> ov_verbose = cli_verbose c, ov_log_file = cli_log_file c,
       ov_interface = cli_interface c, ov_pin_maps = cli_pin_maps c,
       ov_update_time = cli_update_time c, ov_no_stats = cli_no_stats c,
       ov_stats_per_second = cli_stats_per_second c,
       ov_stdout_update_time = cli_stdout_update_time c \<rparr>"

text \<open>
  The messages of the program, one constructor per format string, in the order of the
  source: line 88, 110, 115, 122, 127, 134, 139, 156, 161, 168, 175, 178, 185, 190, 197, 202,
  211, 215, 224, 235, 239, 243, 255, 292, 317, 330, 342, 350, 40 and 360.
\<close>

datatype msg =
    ErrLoadConfig | ErrNoInterface | MsgRaisingRlimit | ErrRlimit | MsgRetrievingIfidx
  | ErrIfidx | MsgLoadingProg | ErrLoadObj | MsgAttaching | ErrAttach | MsgAttachedMode
  | MsgRetrievingMaps | ErrMapStats | MsgMapStatsFd | ErrMapFwdRules | MsgMapFwdRulesFd
  | WarnNoRulesLog | MsgRulesLogFd | MsgPinning | WarnPinFailed | MsgPinned
  | MsgUpdatingRules | MsgCpus | WarnReloadFailed | WarnCalcStats | MsgCleaningUp
  | ErrDetach | MsgUnpinning | WarnUnpinFailed | MsgExiting

datatype signal_no = SIGINT | SIGTERM

text \<open>
  One event per call that leaves the file.  \<open>LogMsg lvl err m\<close> is
  \<open>log_msg(&cfg, lvl, err, m)\<close>; \<open>AttachXdp ifidx detach skb offload\<close> is
  \<open>attach_xdp(prog, &mode_used, ifidx, detach, cli.skb, cli.offload)\<close>, an attach when
  \<open>detach = 0\<close> and a detach when \<open>detach = 1\<close>.  Reads of the clock are not events; their
  results come from the environment.
\<close>

datatype event =
    ParseCli
  | PrintHelpMenu
  | SetCfgDefaults
  | LoadConfig string config_overrides
  | FprintfStderr msg
  | PrintConfig config
  | PrintToolInfo
  | LogMsg int int msg
  | Setrlimit
  | IfNametoindex "string option"
  | SetLibbpfLogMode int
  | LoadBpfObj path_macro
  | AttachXdp int int int int
  | GetMapFd string
  | RingBufferNew int
  | GetBpfObj
  | UnpinMap path_macro string
  | PinMap path_macro string
  | UpdateFwdRules int config
  | Signal signal_no
  | GetNprocsConf
  | Stat string
  | CalcStats int int int
  | PollFwdRulesRb bool
  | Usleep "32 word"
  | FprintfStdout
  | RingBufferFree
  | XdpProgramClose

subsection \<open>What the outside world answers\<close>

text \<open>
  Start-up (lines 45--271).  \<open>s_load_config\<close> is the return value of the first
  \<open>load_config\<close> together with the configuration it leaves in \<open>cfg\<close>; \<open>s_attach\<close> is the
  return value of the attach together with the \<open>mode_used\<close> it stores;
  \<open>s_if_nametoindex\<close> is the \<open>unsigned int\<close> that \<open>if_nametoindex\<close> returns, the index of
  the interface or, when no interface has the name, 0; \<open>s_load_bpf_obj\<close> and
  \<open>s_ring_buffer_new\<close> say whether the pointer returned is non-NULL; the three \<open>s_time\<close>
  fields are the readings of \<open>time(NULL)\<close> on lines 257, 260 and 261.
\<close>

record startup_env =
  s_cli :: cli
  s_load_config :: "int \<times> config"
  s_setrlimit :: int
  s_if_nametoindex :: "32 word"
  s_load_bpf_obj :: bool
  s_attach :: "int \<times> string option"
  s_map_stats :: int
  s_map_fwd_rules :: int
  s_map_fwd_rules_log :: int
  s_ring_buffer_new :: bool
  s_unpin_map :: int
  s_pin_map :: int
  s_nprocs :: int
  s_time_end :: time_t
  s_time_update :: time_t
  s_time_config :: time_t

text \<open>
  One pass through the loop (lines 273--326).  \<open>i_cont\<close> is the value of the global
  \<open>cont\<close> when the loop condition reads it (the signal handler, outside the file, writes
  it); \<open>i_cur_time\<close> is the reading of line 276; \<open>i_stat\<close> is \<open>None\<close> when \<open>stat\<close> fails and
  the file's \<open>st_mtime\<close> otherwise; \<open>i_load_config\<close> as above; \<open>i_time_config\<close> and
  \<open>i_time_update\<close> are the readings of lines 299 and 309; \<open>i_calc_stats\<close> is what
  \<open>calc_stats\<close> returns.
\<close>

record iter_env =
  i_cont :: int
  i_cur_time :: time_t
  i_stat :: "time_t option"
  i_load_config :: "int \<times> config"
  i_time_config :: time_t
  i_time_update :: time_t
  i_calc_stats :: int

text \<open>Shut-down (lines 328--363): the return values of the detach and of \<open>unpin_map\<close>.\<close>

record shutdown_env =
  d_detach :: int
  d_unpin_map :: int

subsection \<open>The local variables of \<open>main\<close> that live across the control loop\<close>

record run_state =
  r_cfg :: config
  r_cli :: cli
  r_ifidx :: int
  r_map_stats :: int
  r_map_fwd_rules :: int
  r_rb :: bool
  r_cpus :: int
  r_end_time :: "32 word"
  r_last_update_check :: time_t
  r_last_config_check :: time_t
  r_sleep_time :: "32 word"
  r_doing_stats :: int

text \<open>Sequencing: the events so far, then the rest of the computation.\<close>

definition then_do :: "event list \<Rightarrow> event list \<times> 'a \<Rightarrow> event list \<times> 'a" where
  "then_do es r = (es @ fst r, snd r)"

subsection \<open>\<open>unpin_needed_maps\<close> (lines 31--43)\<close>

text \<open>The second argument is \<open>ignore_errors\<close>, the third what \<open>unpin_map\<close> returns.\<close>

definition unpin_needed_maps :: "config \<Rightarrow> int \<Rightarrow> int \<Rightarrow> event list" where
  "unpin_needed_maps cfg ignore_errors ret =
     UnpinMap XDP_MAP_PIN_DIR ''map_fwd_rules'' #
     (if ret \<noteq> 0 then (if ignore_errors = 0 then [LogMsg 1 0 WarnUnpinFailed] else [])
      else [])"

subsection \<open>Start-up: \<open>main\<close>, lines 45--271\<close>

text \<open>
  The function is cut where its comments cut it.  The Boolean \<open>rl\<close> says whether the file
  was compiled with \<open>ENABLE_RULE_LOGGING\<close>.  A result \<open>Inl c\<close> is a \<open>return c\<close>; a result
  \<open>Inr st\<close> is the arrival at the \<open>while\<close> of line 273 with the local variables \<open>st\<close>.
\<close>

text \<open>Lines 257 and 263: the two truncating initialisers.\<close>

definition end_time_of :: "int \<Rightarrow> time_t \<Rightarrow> 32 word" where
  "end_time_of t now = (if t > 0 then word_of_int (now + t) else 0)"

definition sleep_time_of :: "config \<Rightarrow> 32 word" where
  "sleep_time_of cfg = word_of_int (stdout_update_time cfg * 1000)"

text \<open>Lines 204--219, present only with \<open>ENABLE_RULE_LOGGING\<close>.\<close>

definition rule_logging_setup :: "bool \<Rightarrow> startup_env \<Rightarrow> event list" where
  "rule_logging_setup rl env =
     (if rl then
        GetMapFd ''map_fwd_rules_log'' #
        (if s_map_fwd_rules_log env < 0 then [LogMsg 1 0 WarnNoRulesLog]
         else [LogMsg 3 0 MsgRulesLogFd, RingBufferNew (s_map_fwd_rules_log env)])
      else [])"

definition rb_of :: "bool \<Rightarrow> startup_env \<Rightarrow> bool" where
  "rb_of rl env = (rl \<and> \<not> s_map_fwd_rules_log env < 0 \<and> s_ring_buffer_new env)"

text \<open>Lines 221--241: pinning.\<close>

definition pin_maps_setup :: "config \<Rightarrow> startup_env \<Rightarrow> event list" where
  "pin_maps_setup cfg env =
     (if pin_maps cfg \<noteq> 0 then
        [LogMsg 2 0 MsgPinning, GetBpfObj] @
        unpin_needed_maps cfg 1 (s_unpin_map env) @
        [PinMap XDP_MAP_PIN_DIR ''map_fwd_rules''] @
        (if s_pin_map env \<noteq> 0 then [LogMsg 1 0 WarnPinFailed] else [LogMsg 3 0 MsgPinned])
      else [])"

text \<open>Lines 243--271: first rule load, signal handlers, the variables of the loop.\<close>

definition initial_state :: "bool \<Rightarrow> startup_env \<Rightarrow> run_state" where
  "initial_state rl env =
     \<lparr> r_cfg = snd (s_load_config env),
       r_cli = s_cli env,
       r_ifidx = sint (s_if_nametoindex env),
       r_map_stats = s_map_stats env,
       r_map_fwd_rules = s_map_fwd_rules env,
       r_rb = rb_of rl env,
       r_cpus = s_nprocs env,
       r_end_time = end_time_of (cli_time (s_cli env)) (s_time_end env),
       r_last_update_check = s_time_update env,
       r_last_config_check = s_time_config env,
       r_sleep_time = sleep_time_of (snd (s_load_config env)),
       r_doing_stats = (if no_stats (snd (s_load_config env)) = 0 then 1 else 0) \<rparr>"

definition main_prepare_loop :: "bool \<Rightarrow> startup_env \<Rightarrow> event list \<times> (exit_code + run_state)" where
  "main_prepare_loop rl env =
     (pin_maps_setup (snd (s_load_config env)) env @
      [LogMsg 2 0 MsgUpdatingRules,
       UpdateFwdRules (s_map_fwd_rules env) (snd (s_load_config env)),
       Signal SIGINT, Signal SIGTERM, GetNprocsConf, LogMsg 4 0 MsgCpus],
      Inr (initial_state rl env))"

text \<open>Lines 178--219: the map handles.\<close>

definition main_get_maps :: "bool \<Rightarrow> startup_env \<Rightarrow> event list \<times> (exit_code + run_state)" where
  "main_get_maps rl env =
     then_do [LogMsg 2 0 MsgRetrievingMaps, GetMapFd ''map_stats'']
     (if s_map_stats env < 0 then ([LogMsg 0 1 ErrMapStats], Inl EXIT_FAILURE)
      else then_do [LogMsg 3 0 MsgMapStatsFd, GetMapFd ''map_fwd_rules'']
     (if s_map_fwd_rules env < 0 then ([LogMsg 0 1 ErrMapFwdRules], Inl EXIT_FAILURE)
      else then_do (LogMsg 3 0 MsgMapFwdRulesFd # rule_logging_setup rl env)
     (main_prepare_loop rl env)))"

text \<open>Lines 115--176: resource limit, interface index, program image, attachment.\<close>

definition main_attach :: "bool \<Rightarrow> startup_env \<Rightarrow> event list \<times> (exit_code + run_state)" where
  "main_attach rl env =
     then_do [LogMsg 2 0 MsgRaisingRlimit, Setrlimit]
     (if s_setrlimit env \<noteq> 0 then ([LogMsg 0 1 ErrRlimit], Inl EXIT_FAILURE)
      else then_do [LogMsg 2 0 MsgRetrievingIfidx,
                    IfNametoindex (interface (snd (s_load_config env)))]
     (if sint (s_if_nametoindex env) < 0 then ([LogMsg 0 1 ErrIfidx], Inl EXIT_FAILURE)
      else then_do [LogMsg 2 0 MsgLoadingProg,
                    SetLibbpfLogMode (if verbose (snd (s_load_config env)) > 4 then 0 else 1),
                    LoadBpfObj XDP_OBJ_PATH]
     (if \<not> s_load_bpf_obj env then ([LogMsg 0 1 ErrLoadObj], Inl EXIT_FAILURE)
      else then_do [LogMsg 2 0 MsgAttaching,
                    AttachXdp (sint (s_if_nametoindex env)) 0
                      (cli_skb (s_cli env)) (cli_offload (s_cli env))]
     (if fst (s_attach env) \<noteq> 0 then ([LogMsg 0 1 ErrAttach], Inl EXIT_FAILURE)
      else then_do (if snd (s_attach env) \<noteq> None then [LogMsg 1 0 MsgAttachedMode] else [])
     (main_get_maps rl env)))))"

text \<open>Lines 45--113: command line and configuration.\<close>

definition startup :: "bool \<Rightarrow> startup_env \<Rightarrow> event list \<times> (exit_code + run_state)" where
  "startup rl env =
     then_do [ParseCli]
     (if cli_help (s_cli env) \<noteq> 0 then ([PrintHelpMenu], Inl EXIT_SUCCESS)
      else then_do [SetCfgDefaults,
                    LoadConfig (cli_cfg_file (s_cli env)) (cfg_overrides (s_cli env))]
     (if fst (s_load_config env) \<noteq> 0 then ([FprintfStderr ErrLoadConfig], Inl EXIT_FAILURE)
      else if cli_list (s_cli env) \<noteq> 0
        then ([PrintConfig (snd (s_load_config env))], Inl EXIT_SUCCESS)
      else then_do (if verbose (snd (s_load_config env)) > 0 then [PrintToolInfo] else [])
     (if interface (snd (s_load_config env)) = None
        then ([LogMsg 0 1 ErrNoInterface], Inl EXIT_FAILURE)
      else main_attach rl env)))"

subsection \<open>The control loop: lines 273--326\<close>

text \<open>Lines 284--310: the check for a changed configuration file.\<close>

definition reload_config :: "run_state \<Rightarrow> iter_env \<Rightarrow> event list \<times> run_state" where
  "reload_config st e =
     ([LoadConfig (cli_cfg_file (r_cli st)) (cfg_overrides (r_cli st))] @
      (if fst (i_load_config e) \<noteq> 0 then [LogMsg 1 0 WarnReloadFailed] else []) @
      [UpdateFwdRules (r_map_fwd_rules st) (snd (i_load_config e))],
      st\<lparr> r_cfg := snd (i_load_config e),
          r_last_config_check := i_time_config e,
          r_doing_stats :=
            (if no_stats (snd (i_load_config e)) = 0 \<and> r_doing_stats st = 0 then 1
             else r_doing_stats st) \<rparr>)"

definition stat_newer :: "run_state \<Rightarrow> iter_env \<Rightarrow> bool" where
  "stat_newer st e =
     (case i_stat e of None \<Rightarrow> False | Some mtime \<Rightarrow> mtime > r_last_config_check st)"

definition update_due :: "run_state \<Rightarrow> iter_env \<Rightarrow> bool" where
  "update_due st e =
     (update_time (r_cfg st) > 0 \<and>
      i_cur_time e - r_last_update_check st > update_time (r_cfg st))"

definition auto_update :: "run_state \<Rightarrow> iter_env \<Rightarrow> event list \<times> run_state" where
  "auto_update st e =
     (if update_due st e then
        (case (if stat_newer st e then reload_config st e else ([], st)) of
           (es, st') \<Rightarrow>
             (Stat (cli_cfg_file (r_cli st)) # es,
              st'\<lparr> r_last_update_check := i_time_update e \<rparr>))
      else ([], st))"

text \<open>Lines 312--325: statistics, the optional poll of the ring buffer, the sleep.\<close>

definition stats_and_sleep :: "bool \<Rightarrow> run_state \<Rightarrow> iter_env \<Rightarrow> event list" where
  "stats_and_sleep rl st e =
     (if no_stats (r_cfg st) = 0 then
        CalcStats (r_map_stats st) (r_cpus st) (stats_per_second (r_cfg st)) #
        (if i_calc_stats e \<noteq> 0 then [LogMsg 1 0 WarnCalcStats] else [])
      else []) @
     (if rl then [PollFwdRulesRb (r_rb st)] else []) @
     [Usleep (r_sleep_time st)]"

text \<open>The body of the loop after the end-time check.\<close>

definition iteration :: "bool \<Rightarrow> run_state \<Rightarrow> iter_env \<Rightarrow> event list \<times> run_state" where
  "iteration rl st e =
     (case auto_update st e of
        (es, st') \<Rightarrow> (es @ stats_and_sleep rl st' e, st'))"

text \<open>Line 279: the end-time check, \<open>time_t\<close> against \<open>unsigned int\<close>.\<close>

definition end_reached :: "run_state \<Rightarrow> iter_env \<Rightarrow> bool" where
  "end_reached st e = (r_end_time st > 0 \<and> i_cur_time e \<ge> uint (r_end_time st))"

text \<open>
  The loop runs on a list of environments, one per pass.  \<open>Exited st\<close>: the loop was left
  (by its condition or by the \<open>break\<close>) with the variables \<open>st\<close>.  \<open>Running st\<close>: every
  environment of the list was used for a full pass and the program is at the loop
  condition again.
\<close>

datatype loop_result = Exited run_state | Running run_state

fun control_loop :: "bool \<Rightarrow> run_state \<Rightarrow> iter_env list \<Rightarrow> event list \<times> loop_result" where
  "control_loop rl st [] = ([], Running st)"
| "control_loop rl st (e # es) =
     (if i_cont e = 0 then ([], Exited st)
      else if end_reached st e then ([], Exited st)
      else then_do (fst (iteration rl st e)) (control_loop rl (snd (iteration rl st e)) es))"

subsection \<open>Shut-down: lines 328--363\<close>

definition shutdown :: "bool \<Rightarrow> run_state \<Rightarrow> shutdown_env \<Rightarrow> event list \<times> exit_code" where
  "shutdown rl st d =
     then_do
       ([FprintfStdout, LogMsg 2 0 MsgCleaningUp] @
        (if rl \<and> r_rb st then [RingBufferFree] else []) @
        [AttachXdp (r_ifidx st) 1 (cli_skb (r_cli st)) (cli_offload (r_cli st))])
     (if d_detach d \<noteq> 0 then ([LogMsg 0 1 ErrDetach], EXIT_FAILURE)
      else
        ((if pin_maps (r_cfg st) \<noteq> 0
          then [LogMsg 2 0 MsgUnpinning, GetBpfObj] @
               unpin_needed_maps (r_cfg st) 0 (d_unpin_map d)
          else []) @
         [XdpProgramClose, LogMsg 1 0 MsgExiting],
         EXIT_SUCCESS))"

subsection \<open>The whole of \<open>main\<close>\<close>

text \<open>
  The result is the trace and the exit status; the status is \<open>None\<close> when the list of loop
  environments ended with the program still in its loop.
\<close>

definition main :: "bool \<Rightarrow> startup_env \<Rightarrow> iter_env list \<Rightarrow> shutdown_env
    \<Rightarrow> event list \<times> exit_code option" where
  "main rl env es d =
     (case startup rl env of
        (t0, Inl c) \<Rightarrow> (t0, Some c)
      | (t0, Inr st) \<Rightarrow>
          (case control_loop rl st es of
             (t1, Running st') \<Rightarrow> (t0 @ t1, None)
           | (t1, Exited st') \<Rightarrow>
               (t0 @ t1 @ fst (shutdown rl st' d), Some (snd (shutdown rl st' d)))))"

subsection \<open>Reading a trace\<close>

fun is_load_config :: "event \<Rightarrow> bool" where
  "is_load_config (LoadConfig f ov) = True"
| "is_load_config _ = False"

fun is_attach :: "event \<Rightarrow> bool" where
  "is_attach (AttachXdp i dt s ofl) = (dt = 0)"
| "is_attach _ = False"

fun is_detach :: "event \<Rightarrow> bool" where
  "is_detach (AttachXdp i dt s ofl) = (dt \<noteq> 0)"
| "is_detach _ = False"

fun is_usleep :: "event \<Rightarrow> bool" where
  "is_usleep (Usleep n) = True"
| "is_usleep _ = False"

text \<open>A reload is a call of \<open>load_config\<close>.\<close>

definition reload_performed :: "event list \<Rightarrow> bool" where
  "reload_performed tr = list_ex is_load_config tr"

text \<open>
  The guards of lines 62--166 that a run passes to get its program attached, and those of
  lines 183 and 195 on top of them.
\<close>

definition reaches_ifindex :: "startup_env \<Rightarrow> bool" where
  "reaches_ifindex env =
     (cli_help (s_cli env) = 0 \<and> fst (s_load_config env) = 0 \<and> cli_list (s_cli env) = 0 \<and>
      interface (snd (s_load_config env)) \<noteq> None \<and> s_setrlimit env = 0)"

definition attach_succeeds :: "startup_env \<Rightarrow> bool" where
  "attach_succeeds env =
     (reaches_ifindex env \<and> \<not> sint (s_if_nametoindex env) < 0 \<and> s_load_bpf_obj env \<and>
      fst (s_attach env) = 0)"

definition maps_found :: "startup_env \<Rightarrow> bool" where
  "maps_found env =
     (attach_succeeds env \<and> \<not> s_map_stats env < 0 \<and> \<not> s_map_fwd_rules env < 0)"

subsection \<open>Concrete runs\<close>

text \<open>
  A configuration with a reload interval of 30 seconds and pinning enabled, a command line
  that overrides nothing, and a start-up in which every call succeeds (the unpin before
  the pin finds nothing to remove and returns an error code).
\<close>

definition cfg0 :: config where
  "cfg0 = \<lparr> verbose = 1, interface = Some ''eth0'', pin_maps = 1, update_time = 30,
            no_stats = 0, stats_per_second = 0, stdout_update_time = 1000 \<rparr>"

definition cli0 :: cli where
  "cli0 = \<lparr> cli_cfg_file = ''xdpfwd.conf'', cli_help = 0, cli_list = 0, cli_skb = 0,
            cli_offload = 0, cli_time = 0, cli_verbose = - 1, cli_log_file = None,
            cli_interface = None, cli_pin_maps = - 1, cli_update_time = - 1,
            cli_no_stats = - 1, cli_stats_per_second = - 1, cli_stdout_update_time = - 1 \<rparr>"

definition env0 :: startup_env where
  "env0 = \<lparr> s_cli = cli0, s_load_config = (0, cfg0), s_setrlimit = 0, s_if_nametoindex = 2,
            s_load_bpf_obj = True, s_attach = (0, Some ''DRV/native''), s_map_stats = 5,
            s_map_fwd_rules = 6, s_map_fwd_rules_log = 7, s_ring_buffer_new = True,
            s_unpin_map = - 2, s_pin_map = 0, s_nprocs = 4, s_time_end = 1000,
            s_time_update = 1000, s_time_config = 1000 \<rparr>"

text \<open>
  A pass of the loop at clock reading \<open>t\<close> (the clock does not advance during the pass),
  with the flag \<open>c\<close>, the answer \<open>m\<close> of \<open>stat\<close> and the answer \<open>lc\<close> of \<open>load_config\<close>.
\<close>

definition pass :: "int \<Rightarrow> time_t \<Rightarrow> time_t option \<Rightarrow> int \<times> config \<Rightarrow> iter_env" where
  "pass c t m lc = \<lparr> i_cont = c, i_cur_time = t, i_stat = m, i_load_config = lc,
                      i_time_config = t, i_time_update = t, i_calc_stats = 0 \<rparr>"

definition shut0 :: shutdown_env where
  "shut0 = \<lparr> d_detach = 0, d_unpin_map = 0 \<rparr>"

text \<open>The configuration file after an edit that raises the display interval.\<close>

definition cfg1 :: config where
  "cfg1 = cfg0 \<lparr> stdout_update_time := 5000 \<rparr>"

text \<open>
  The variables at the loop when the last check for an update was at \<open>u\<close> and the last
  reload at \<open>c\<close>; everything else as \<open>env0\<close> leaves it.
\<close>

definition state_at :: "time_t \<Rightarrow> time_t \<Rightarrow> run_state" where
  "state_at u c = initial_state False (env0\<lparr> s_time_update := u, s_time_config := c \<rparr>)"

text \<open>A shut-down in which the detach fails.\<close>

definition shut_detach_fails :: shutdown_env where
  "shut_detach_fails = \<lparr> d_detach = - 1, d_unpin_map = 0 \<rparr>"

text \<open>
  The start-up of \<open>env0\<close> with a run duration of 5 seconds on the command line, at a clock
  reading 5 seconds short of \<open>2 ^ 32\<close>.
\<close>

definition env_wrap :: startup_env where
  "env_wrap = env0 \<lparr> s_cli := cli0 \<lparr> cli_time := 5 \<rparr>, s_time_end := 4294967291,
                    s_time_update := 4294967291, s_time_config := 4294967291 \<rparr>"

section \<open>Properties\<close>

subsection \<open>Traces of the parts of \<open>main\<close>\<close>

lemma fst_then_do [simp]: "fst (then_do es r) = es @ fst r"
  by (simp add: then_do_def)

lemma snd_then_do [simp]: "snd (then_do es r) = snd r"
  by (simp add: then_do_def)

lemmas startup_defs = startup_def main_attach_def main_get_maps_def main_prepare_loop_def
  pin_maps_setup_def unpin_needed_maps_def rule_logging_setup_def

text \<open>What start-up has done when the attachment has succeeded.\<close>

lemma startup_attach:
  "attach_succeeds env \<Longrightarrow>
   startup rl env =
     then_do ([ParseCli, SetCfgDefaults,
               LoadConfig (cli_cfg_file (s_cli env)) (cfg_overrides (s_cli env))] @
              (if verbose (snd (s_load_config env)) > 0 then [PrintToolInfo] else []) @
              [LogMsg 2 0 MsgRaisingRlimit, Setrlimit, LogMsg 2 0 MsgRetrievingIfidx,
               IfNametoindex (interface (snd (s_load_config env))),
               LogMsg 2 0 MsgLoadingProg,
               SetLibbpfLogMode (if verbose (snd (s_load_config env)) > 4 then 0 else 1),
               LoadBpfObj XDP_OBJ_PATH, LogMsg 2 0 MsgAttaching,
               AttachXdp (sint (s_if_nametoindex env)) 0
                 (cli_skb (s_cli env)) (cli_offload (s_cli env))] @
              (if snd (s_attach env) \<noteq> None then [LogMsg 1 0 MsgAttachedMode] else []))
       (main_get_maps rl env)"
  by (simp add: attach_succeeds_def reaches_ifindex_def startup_def main_attach_def then_do_def)

lemma startup_no_usleep: "filter is_usleep (fst (startup rl env)) = []"
  by (simp add: startup_defs)

lemma startup_no_detach: "filter is_detach (fst (startup rl env)) = []"
  by (simp add: startup_defs)

lemma startup_state: "snd (startup rl env) = Inr st \<Longrightarrow> st = initial_state rl env"
  by (simp add: startup_defs split: if_splits)

lemma startup_reaches_loop:
  "maps_found env \<Longrightarrow> snd (startup rl env) = Inr (initial_state rl env)"
  by (simp add: maps_found_def startup_attach main_get_maps_def main_prepare_loop_def)

lemma main_trace_startup: "\<exists>t. fst (main rl env es d) = fst (startup rl env) @ t"
  by (cases "startup rl env"; cases "snd (startup rl env)";
      cases "control_loop rl (projr (snd (startup rl env))) es";
      cases "snd (control_loop rl (projr (snd (startup rl env))) es)")
     (auto simp: main_def)

text \<open>A pass changes the configuration, the two timers and \<open>doing_stats\<close>, nothing else.\<close>

lemma iteration_frame:
  "r_sleep_time (snd (iteration rl st e)) = r_sleep_time st"
  "r_end_time (snd (iteration rl st e)) = r_end_time st"
  "r_cli (snd (iteration rl st e)) = r_cli st"
  "r_ifidx (snd (iteration rl st e)) = r_ifidx st"
  by (simp_all add: iteration_def auto_update_def reload_config_def split: prod.splits)

text \<open>A pass sleeps once, at its end, for the time fixed before the loop.\<close>

lemma iteration_usleep:
  "filter is_usleep (fst (iteration rl st e)) = [Usleep (r_sleep_time st)]"
  by (simp add: iteration_def auto_update_def reload_config_def stats_and_sleep_def
      split: prod.splits)

lemma iteration_no_attach:
  "filter is_attach (fst (iteration rl st e)) = []"
  "filter is_detach (fst (iteration rl st e)) = []"
  by (simp_all add: iteration_def auto_update_def reload_config_def stats_and_sleep_def
      split: prod.splits)

lemma loop_no_attach:
  "filter is_attach (fst (control_loop rl st es)) = []"
  "filter is_detach (fst (control_loop rl st es)) = []"
  by (induction es arbitrary: st) (simp_all add: iteration_no_attach)

lemma shutdown_no_usleep: "filter is_usleep (fst (shutdown rl st d)) = []"
  by (simp add: shutdown_def unpin_needed_maps_def)

lemma attach_succeeds_env0: "attach_succeeds env0"
  by (simp add: attach_succeeds_def reaches_ifindex_def env0_def cli0_def cfg0_def)

text \<open>Unfolding a concrete run.\<close>

lemmas run_defs = main_def startup_defs then_do_def iteration_def auto_update_def
  update_due_def stat_newer_def reload_config_def stats_and_sleep_def end_reached_def
  shutdown_def initial_state_def end_time_of_def sleep_time_of_def rb_of_def
  env0_def cli0_def cfg0_def pass_def shut0_def

subsection \<open>C1: detach on the error paths after the attachment\<close>

text \<open>
  C1 says that every run whose attach succeeds invokes the detach exactly once before the
  process exits, also when a mandatory map is missing after the attachment.  The program
  does not: when \<open>get_map_fd\<close> answers a negative descriptor for \<open>map_stats\<close> or for
  \<open>map_fwd_rules\<close> (lines 183 and 195), \<open>main\<close> returns \<open>EXIT_FAILURE\<close> at once.  The trace
  of such a run holds the one attach and no detach, whatever the later environments are.
\<close>

theorem missing_map_exits_without_detach:
  assumes "attach_succeeds env" and "s_map_stats env < 0 \<or> s_map_fwd_rules env < 0"
  shows "snd (main rl env es d) = Some EXIT_FAILURE \<and>
         length (filter is_attach (fst (main rl env es d))) = 1 \<and>
         filter is_detach (fst (main rl env es d)) = []"
  using assms(2)
  by (auto simp: main_def startup_attach[OF assms(1)] main_get_maps_def then_do_def)

theorem missing_map_exits_without_detach_witness:
  "attach_succeeds (env0\<lparr>s_map_stats := - 1\<rparr>) \<and>
   s_map_stats (env0\<lparr>s_map_stats := - 1\<rparr>) < 0 \<and>
   snd (main False (env0\<lparr>s_map_stats := - 1\<rparr>) [] shut0) = Some EXIT_FAILURE \<and>
   length (filter is_attach (fst (main False (env0\<lparr>s_map_stats := - 1\<rparr>) [] shut0))) = 1 \<and>
   filter is_detach (fst (main False (env0\<lparr>s_map_stats := - 1\<rparr>) [] shut0)) = []"
proof -
  have a: "attach_succeeds (env0\<lparr>s_map_stats := - 1\<rparr>)"
    using attach_succeeds_env0 by (simp add: attach_succeeds_def reaches_ifindex_def)
  have b: "s_map_stats (env0\<lparr>s_map_stats := - 1\<rparr>) < 0" by simp
  from missing_map_exits_without_detach[OF a disjI1[OF b], of False "[]" shut0] a b
  show ?thesis by simp
qed

text \<open>
  For comparison, the path through the loop: a run that arrives at the control loop and
  leaves it calls the detach exactly once, in the shut-down.
\<close>

lemma detach_once_on_loop_exit:
  assumes "startup rl env = (t0, Inr st)" and "control_loop rl st es = (t1, Exited st')"
  shows "length (filter is_detach (fst (main rl env es d))) = 1"
proof -
  have "filter is_detach t0 = []"
    using startup_no_detach[of rl env] assms(1) by simp
  moreover have "filter is_detach t1 = []"
    using loop_no_attach(2)[of rl st es] assms(2) by simp
  moreover have "length (filter is_detach (fst (shutdown rl st' d))) = 1"
    by (simp add: shutdown_def unpin_needed_maps_def)
  ultimately show ?thesis
    using assms by (simp add: main_def)
qed

subsection \<open>C2: when a reload happens\<close>

text \<open>
  C2 as stated lets a reload happen once \<^emph>\<open>at least\<close> the interval has elapsed.  Line 285
  compares with \<open>>\<close>.  With an interval of 30, a last check at 31 and a last reload at 100,
  a pass at 61 that finds the file modified at 150 meets the three conditions of the claim
  and does not reload.
\<close>

theorem no_reload_when_interval_just_elapsed:
  "0 < update_time (r_cfg (state_at 31 100)) \<and>
   update_time (r_cfg (state_at 31 100)) \<le>
     i_cur_time (pass 1 61 (Some 150) (0, cfg1)) - r_last_update_check (state_at 31 100) \<and>
   i_stat (pass 1 61 (Some 150) (0, cfg1)) = Some 150 \<and>
   r_last_config_check (state_at 31 100) < 150 \<and>
   \<not> reload_performed (fst (iteration False (state_at 31 100) (pass 1 61 (Some 150) (0, cfg1)))) \<and>
   fst (control_loop False (state_at 31 100) [pass 1 61 (Some 150) (0, cfg1)]) =
     [CalcStats 5 4 0, Usleep 1000000]"
  by (simp add: reload_performed_def state_at_def run_defs cfg1_def)

text \<open>
  C2, amended: a pass of the loop (one that got past the loop condition and the end-time
  check) reloads the configuration if and only if the reload interval is positive,
  \<^emph>\<open>more\<close> than that many seconds lie between the last check and the clock reading of the
  pass, \<open>stat\<close> succeeds on the file, and the file's modification time is strictly later
  than the time of the last reload, \<open>last_config_check\<close>.  So no pass reloads while no more
  than the interval has elapsed, none reloads a file that \<open>stat\<close> cannot read, and none
  reloads a file whose modification time is not later than \<open>last_config_check\<close>.
\<close>

theorem reload_iff:
  "(reload_performed (fst (iteration rl st e)) \<longleftrightarrow>
      (update_time (r_cfg st) > 0 \<and>
       i_cur_time e - r_last_update_check st > update_time (r_cfg st) \<and>
       (\<exists>mtime. i_stat e = Some mtime \<and> mtime > r_last_config_check st))) \<and>
   (i_cur_time e - r_last_update_check st \<le> update_time (r_cfg st) \<longrightarrow>
      \<not> reload_performed (fst (iteration rl st e))) \<and>
   (i_stat e = None \<longrightarrow> \<not> reload_performed (fst (iteration rl st e))) \<and>
   (i_stat e = Some m \<and> m \<le> r_last_config_check st \<longrightarrow>
      \<not> reload_performed (fst (iteration rl st e)))"
  by (auto simp: reload_performed_def iteration_def auto_update_def update_due_def
      stat_newer_def reload_config_def stats_and_sleep_def
      split: option.splits prod.splits if_splits)

text \<open>
  With the last check at 31 and the last reload at 100: the pass at 62 reloads a file
  modified at 150; it does not reload a file modified at 100, nor one that \<open>stat\<close> cannot
  read; and the pass at 61 reloads nothing.
\<close>

theorem reload_iff_witness:
  "reload_performed (fst (iteration False (state_at 31 100) (pass 1 62 (Some 150) (0, cfg1)))) \<and>
   i_cur_time (pass 1 61 (Some 150) (0, cfg1)) - r_last_update_check (state_at 31 100)
     \<le> update_time (r_cfg (state_at 31 100)) \<and>
   \<not> reload_performed (fst (iteration False (state_at 31 100) (pass 1 61 (Some 150) (0, cfg1)))) \<and>
   i_stat (pass 1 62 None (0, cfg1)) = None \<and>
   \<not> reload_performed (fst (iteration False (state_at 31 100) (pass 1 62 None (0, cfg1)))) \<and>
   i_stat (pass 1 62 (Some 100) (0, cfg1)) = Some 100 \<and>
   100 \<le> r_last_config_check (state_at 31 100) \<and>
   \<not> reload_performed (fst (iteration False (state_at 31 100) (pass 1 62 (Some 100) (0, cfg1))))"
proof -
  have st: "update_time (r_cfg (state_at 31 100)) = 30"
    "r_last_update_check (state_at 31 100) = 31"
    "r_last_config_check (state_at 31 100) = 100"
    by (simp_all add: state_at_def initial_state_def env0_def cfg0_def)
  have a: "reload_performed (fst (iteration False (state_at 31 100)
      (pass 1 62 (Some 150) (0, cfg1))))"
    using reload_iff[of False "state_at 31 100" "pass 1 62 (Some 150) (0, cfg1)"]
    by (simp add: st pass_def)
  have b: "i_cur_time (pass 1 61 (Some 150) (0, cfg1)) - r_last_update_check (state_at 31 100)
      \<le> update_time (r_cfg (state_at 31 100))"
    by (simp add: st pass_def)
  have c: "i_stat (pass 1 62 None (0, cfg1)) = None"
    by (simp add: pass_def)
  have d: "i_stat (pass 1 62 (Some 100) (0, cfg1)) = Some 100"
    by (simp add: pass_def)
  have e: "100 \<le> r_last_config_check (state_at 31 100)"
    by (simp add: st)
  from reload_iff[of False "state_at 31 100" "pass 1 61 (Some 150) (0, cfg1)"] b
  have b': "\<not> reload_performed (fst (iteration False (state_at 31 100)
      (pass 1 61 (Some 150) (0, cfg1))))"
    by blast
  from reload_iff[of False "state_at 31 100" "pass 1 62 None (0, cfg1)"] c
  have c': "\<not> reload_performed (fst (iteration False (state_at 31 100)
      (pass 1 62 None (0, cfg1))))"
    by blast
  from reload_iff[of False "state_at 31 100" "pass 1 62 (Some 100) (0, cfg1)" 100] d e
  have d': "\<not> reload_performed (fst (iteration False (state_at 31 100)
      (pass 1 62 (Some 100) (0, cfg1))))"
    by blast
  show ?thesis
    by (intro conjI a b b' c c' d e d')
qed

text \<open>
  \<open>last_config_check\<close> holds a clock reading (lines 261 and 299), not a modification
  time, so an unchanged file can be reloaded again: one whose modification time lies
  ahead of the clock is.  With the last check at 0 and the last reload at 100, the pass at 61 reloads the
  file modified at 150 and stores 61; the pass at 92 finds the same modification time,
  150, and reloads again.
\<close>

lemma unchanged_file_reloaded_again:
  "reload_performed (fst (iteration False (state_at 0 100) (pass 1 61 (Some 150) (0, cfg0)))) \<and>
   r_last_config_check (snd (iteration False (state_at 0 100) (pass 1 61 (Some 150) (0, cfg0))))
     = 61 \<and>
   reload_performed (fst (iteration False
     (snd (iteration False (state_at 0 100) (pass 1 61 (Some 150) (0, cfg0))))
     (pass 1 92 (Some 150) (0, cfg0))))"
  by (simp add: reload_performed_def state_at_def run_defs)

subsection \<open>C3: a failed interface lookup\<close>

text \<open>
  C3 says that the process aborts, before loading the program image, when the interface
  name cannot be resolved.  \<open>if_nametoindex\<close> reports that failure by returning 0.  Line 130
  stores the result in an \<open>int\<close> and line 132 tests \<open>ifidx < 0\<close>, which 0 does not satisfy:
  the error branch of lines 133--137 is not taken, and the run goes on to set the libbpf
  log mode and to load the program image (and then to attach it to interface index 0).
  The trace of every run that reaches the lookup and gets 0 from it starts as follows.
\<close>

theorem ifindex_failure_not_detected:
  assumes "reaches_ifindex env" and "s_if_nametoindex env = 0"
  shows "\<exists>post. fst (main rl env es d) =
           [ParseCli, SetCfgDefaults,
            LoadConfig (cli_cfg_file (s_cli env)) (cfg_overrides (s_cli env))] @
           (if verbose (snd (s_load_config env)) > 0 then [PrintToolInfo] else []) @
           [LogMsg 2 0 MsgRaisingRlimit, Setrlimit, LogMsg 2 0 MsgRetrievingIfidx,
            IfNametoindex (interface (snd (s_load_config env))),
            LogMsg 2 0 MsgLoadingProg,
            SetLibbpfLogMode (if verbose (snd (s_load_config env)) > 4 then 0 else 1),
            LoadBpfObj XDP_OBJ_PATH] @ post"
proof -
  obtain t where t: "fst (main rl env es d) = fst (startup rl env) @ t"
    using main_trace_startup by blast
  have "\<exists>p. fst (startup rl env) =
           [ParseCli, SetCfgDefaults,
            LoadConfig (cli_cfg_file (s_cli env)) (cfg_overrides (s_cli env))] @
           (if verbose (snd (s_load_config env)) > 0 then [PrintToolInfo] else []) @
           [LogMsg 2 0 MsgRaisingRlimit, Setrlimit, LogMsg 2 0 MsgRetrievingIfidx,
            IfNametoindex (interface (snd (s_load_config env))),
            LogMsg 2 0 MsgLoadingProg,
            SetLibbpfLogMode (if verbose (snd (s_load_config env)) > 4 then 0 else 1),
            LoadBpfObj XDP_OBJ_PATH] @ p"
    using assms by (simp add: reaches_ifindex_def startup_def main_attach_def)
  with t show ?thesis by auto
qed

text \<open>
  The run of \<open>env0\<close> with the lookup failing: the program is loaded, attached to index 0,
  and the process is in its control loop.
\<close>

theorem ifindex_failure_not_detected_witness:
  "reaches_ifindex (env0\<lparr>s_if_nametoindex := 0\<rparr>) \<and>
   s_if_nametoindex (env0\<lparr>s_if_nametoindex := 0\<rparr>) = 0 \<and>
   LoadBpfObj XDP_OBJ_PATH \<in> set (fst (main False (env0\<lparr>s_if_nametoindex := 0\<rparr>) [] shut0)) \<and>
   AttachXdp 0 0 0 0 \<in> set (fst (main False (env0\<lparr>s_if_nametoindex := 0\<rparr>) [] shut0)) \<and>
   LogMsg 0 1 ErrIfidx \<notin> set (fst (main False (env0\<lparr>s_if_nametoindex := 0\<rparr>) [] shut0)) \<and>
   snd (main False (env0\<lparr>s_if_nametoindex := 0\<rparr>) [] shut0) = None"
proof -
  have a: "reaches_ifindex (env0\<lparr>s_if_nametoindex := 0\<rparr>)"
    by (simp add: reaches_ifindex_def env0_def cli0_def cfg0_def)
  have b: "s_if_nametoindex (env0\<lparr>s_if_nametoindex := 0\<rparr>) = 0"
    by simp
  from ifindex_failure_not_detected[OF a b, of False "[]" shut0]
  have "LoadBpfObj XDP_OBJ_PATH \<in> set (fst (main False (env0\<lparr>s_if_nametoindex := 0\<rparr>) [] shut0))"
    by auto
  moreover have
    "AttachXdp 0 0 0 0 \<in> set (fst (main False (env0\<lparr>s_if_nametoindex := 0\<rparr>) [] shut0))"
    "LogMsg 0 1 ErrIfidx \<notin> set (fst (main False (env0\<lparr>s_if_nametoindex := 0\<rparr>) [] shut0))"
    "snd (main False (env0\<lparr>s_if_nametoindex := 0\<rparr>) [] shut0) = None"
    by (simp_all add: run_defs)
  ultimately show ?thesis using a b by simp
qed

subsection \<open>C4: the shut-down sequence\<close>

text \<open>
  C4 as stated has the release of the program handle attempted even when the detach
  fails.  Line 344 returns as soon as the detach has failed, so neither the unpin nor
  \<open>xdp_program__close\<close> is reached.  A run of \<open>env0\<close> that leaves the loop at its first
  test and whose detach fails:
\<close>

theorem release_skipped_when_detach_fails:
  "d_detach shut_detach_fails \<noteq> 0 \<and>
   snd (main False env0 [pass 0 1001 None (0, cfg0)] shut_detach_fails) = Some EXIT_FAILURE \<and>
   LogMsg 0 1 ErrDetach \<in> set (fst (main False env0 [pass 0 1001 None (0, cfg0)] shut_detach_fails)) \<and>
   XdpProgramClose \<notin> set (fst (main False env0 [pass 0 1001 None (0, cfg0)] shut_detach_fails))"
  by (simp add: run_defs shut_detach_fails_def)

text \<open>
  C4, amended: the shut-down always calls the detach, once.  When the detach succeeds, the
  program handle is released (once) and the exit status is success, whether or not the
  unpin fails; a failed unpin (with pinning enabled) is logged at level 1 as a warning and
  nothing more.  When the detach fails, the failure is logged as an error and the exit
  status is failure.
\<close>

theorem shutdown_sequence:
  "(d_detach d = 0 \<longrightarrow>
      snd (shutdown rl st d) = EXIT_SUCCESS \<and>
      length (filter is_detach (fst (shutdown rl st d))) = 1 \<and>
      length (filter (\<lambda>ev. ev = XdpProgramClose) (fst (shutdown rl st d))) = 1 \<and>
      (LogMsg 1 0 WarnUnpinFailed \<in> set (fst (shutdown rl st d)) \<longleftrightarrow>
         pin_maps (r_cfg st) \<noteq> 0 \<and> d_unpin_map d \<noteq> 0)) \<and>
   (d_detach d \<noteq> 0 \<longrightarrow>
      snd (shutdown rl st d) = EXIT_FAILURE \<and>
      length (filter is_detach (fst (shutdown rl st d))) = 1 \<and>
      LogMsg 0 1 ErrDetach \<in> set (fst (shutdown rl st d)))"
  by (simp add: shutdown_def unpin_needed_maps_def)

text \<open>Both cases at \<open>env0\<close>: a shut-down whose unpin fails, and one whose detach fails.\<close>

theorem shutdown_sequence_witness:
  "d_detach (shut0\<lparr>d_unpin_map := - 1\<rparr>) = 0 \<and>
   snd (shutdown False (initial_state False env0) (shut0\<lparr>d_unpin_map := - 1\<rparr>)) = EXIT_SUCCESS \<and>
   length (filter (\<lambda>ev. ev = XdpProgramClose)
     (fst (shutdown False (initial_state False env0) (shut0\<lparr>d_unpin_map := - 1\<rparr>)))) = 1 \<and>
   LogMsg 1 0 WarnUnpinFailed \<in>
     set (fst (shutdown False (initial_state False env0) (shut0\<lparr>d_unpin_map := - 1\<rparr>))) \<and>
   d_detach shut_detach_fails \<noteq> 0 \<and>
   snd (shutdown False (initial_state False env0) shut_detach_fails) = EXIT_FAILURE \<and>
   LogMsg 0 1 ErrDetach \<in> set (fst (shutdown False (initial_state False env0) shut_detach_fails))"
proof -
  have a: "d_detach (shut0\<lparr>d_unpin_map := - 1\<rparr>) = 0"
    by (simp add: shut0_def)
  have b: "d_detach shut_detach_fails \<noteq> 0"
    by (simp add: shut_detach_fails_def)
  have c: "pin_maps (r_cfg (initial_state False env0)) \<noteq> 0"
    by (simp add: initial_state_def env0_def cfg0_def)
  from shutdown_sequence[of "shut0\<lparr>d_unpin_map := - 1\<rparr>" False "initial_state False env0"]
    shutdown_sequence[of shut_detach_fails False "initial_state False env0"] a b c
  show ?thesis by simp
qed

subsection \<open>C5: the two timers\<close>

text \<open>
  C5 as stated has a reload store the file's modification time (150 in the example of the
  specification).  Line 299 stores the reading of the clock instead.  With an interval of
  30, the last check at 0 and the last reload at 100, a pass at 61 that finds the file
  modified at 150 reloads it and leaves 61 in \<open>last_config_check\<close>.
\<close>

theorem reload_stores_clock_not_mtime:
  "i_stat (pass 1 61 (Some 150) (0, cfg1)) = Some 150 \<and>
   reload_performed (fst (iteration False (state_at 0 100) (pass 1 61 (Some 150) (0, cfg1)))) \<and>
   r_last_config_check (snd (iteration False (state_at 0 100) (pass 1 61 (Some 150) (0, cfg1)))) = 61 \<and>
   r_last_config_check (snd (iteration False (state_at 0 100) (pass 1 61 (Some 150) (0, cfg1)))) \<noteq> 150"
  by (simp add: reload_performed_def state_at_def run_defs cfg1_def)

text \<open>A pass whose check is not due leaves every variable as it was and does not reload.\<close>

lemma iteration_not_due:
  "\<not> update_due st e \<Longrightarrow> iteration rl st e = (stats_and_sleep rl st e, st)"
  by (simp add: iteration_def auto_update_def)

lemma no_reload_while_not_due:
  "\<forall>x\<in>set es. \<not> update_due st x \<Longrightarrow> \<not> reload_performed (fst (control_loop rl st es))"
proof (induction es)
  case Nil
  then show ?case by (simp add: reload_performed_def)
next
  case (Cons x es)
  then have "\<not> reload_performed (fst (control_loop rl st es))"
    and "iteration rl st x = (stats_and_sleep rl st x, st)"
    by (simp_all add: iteration_not_due)
  then show ?case
    by (simp add: reload_performed_def stats_and_sleep_def)
qed

text \<open>
  C5, amended: whenever the check is due (positive interval, more than the interval
  elapsed), \<open>last_update_check\<close> becomes the clock reading of line 309, whatever \<open>stat\<close> and
  \<open>load_config\<close> answered; whenever a reload occurs, \<open>last_config_check\<close> becomes the clock
  reading of line 299 (not the file's modification time); and after a due check, however
  it ended, the loop does not reload in any later pass, however many there are, as long as
  the clock readings of those passes lie no more than the interval (of the configuration
  then in force) after the reading that the check stored.  So a failed reload is retried
  only once the interval has elapsed again.
\<close>

theorem timers_after_check:
  "(update_due st e \<longrightarrow> r_last_update_check (snd (iteration rl st e)) = i_time_update e) \<and>
   (reload_performed (fst (iteration rl st e)) \<longrightarrow>
      r_last_config_check (snd (iteration rl st e)) = i_time_config e) \<and>
   (update_due st e \<and>
    (\<forall>x\<in>set es.
       i_cur_time x - i_time_update e \<le> update_time (r_cfg (snd (iteration rl st e)))) \<longrightarrow>
      \<not> reload_performed (fst (control_loop rl (snd (iteration rl st e)) es)))"
proof (intro conjI impI)
  assume "update_due st e"
  then show "r_last_update_check (snd (iteration rl st e)) = i_time_update e"
    by (simp add: iteration_def auto_update_def reload_config_def split: prod.splits)
next
  assume "reload_performed (fst (iteration rl st e))"
  then show "r_last_config_check (snd (iteration rl st e)) = i_time_config e"
    by (auto simp: reload_performed_def iteration_def auto_update_def reload_config_def
        stats_and_sleep_def split: prod.splits if_splits)
next
  assume a: "update_due st e \<and>
    (\<forall>x\<in>set es.
       i_cur_time x - i_time_update e \<le> update_time (r_cfg (snd (iteration rl st e))))"
  then have "r_last_update_check (snd (iteration rl st e)) = i_time_update e"
    by (simp add: iteration_def auto_update_def reload_config_def split: prod.splits)
  with a have "\<forall>x\<in>set es. \<not> update_due (snd (iteration rl st e)) x"
    by (fastforce simp: update_due_def)
  then show "\<not> reload_performed (fst (control_loop rl (snd (iteration rl st e)) es))"
    by (rule no_reload_while_not_due)
qed

text \<open>
  A pass at 61 whose reload fails (\<open>load_config\<close> returns \<open>-1\<close>): both timers are 61
  afterwards.  The file changes again, and the loop goes on with passes at 62, 75 and 91:
  none of them reloads.  The pass at 92 would.
\<close>

theorem timers_after_check_witness:
  "update_due (state_at 0 100) (pass 1 61 (Some 150) (- 1, cfg0)) \<and>
   reload_performed (fst (iteration False (state_at 0 100) (pass 1 61 (Some 150) (- 1, cfg0)))) \<and>
   r_last_update_check (snd (iteration False (state_at 0 100) (pass 1 61 (Some 150) (- 1, cfg0)))) = 61 \<and>
   r_last_config_check (snd (iteration False (state_at 0 100) (pass 1 61 (Some 150) (- 1, cfg0)))) = 61 \<and>
   i_cur_time (pass 1 62 (Some 160) (0, cfg0)) - 61 \<le> 30 \<and>
   i_cur_time (pass 1 75 (Some 160) (0, cfg0)) - 61 \<le> 30 \<and>
   i_cur_time (pass 1 91 (Some 160) (0, cfg0)) - 61 \<le> 30 \<and>
   \<not> reload_performed (fst (control_loop False
        (snd (iteration False (state_at 0 100) (pass 1 61 (Some 150) (- 1, cfg0))))
        [pass 1 62 (Some 160) (0, cfg0), pass 1 75 (Some 160) (0, cfg0),
         pass 1 91 (Some 160) (0, cfg0)])) \<and>
   reload_performed (fst (control_loop False
        (snd (iteration False (state_at 0 100) (pass 1 61 (Some 150) (- 1, cfg0))))
        [pass 1 62 (Some 160) (0, cfg0), pass 1 75 (Some 160) (0, cfg0),
         pass 1 92 (Some 160) (0, cfg0)]))"
proof -
  let ?e = "pass 1 61 (Some 150) (- 1, cfg0)"
  let ?es = "[pass 1 62 (Some 160) (0, cfg0), pass 1 75 (Some 160) (0, cfg0),
    pass 1 91 (Some 160) (0, cfg0)]"
  have a: "update_due (state_at 0 100) ?e"
    by (simp add: update_due_def state_at_def initial_state_def env0_def cfg0_def pass_def)
  have b: "reload_performed (fst (iteration False (state_at 0 100) ?e))"
    by (simp add: reload_performed_def state_at_def run_defs)
  have c: "i_time_update ?e = 61" "i_time_config ?e = 61"
    by (simp_all add: pass_def)
  have d: "update_time (r_cfg (snd (iteration False (state_at 0 100) ?e))) = 30"
    by (simp add: state_at_def run_defs)
  have e1: "i_cur_time (pass 1 62 (Some 160) (0, cfg0)) - 61 \<le> 30"
    and e2: "i_cur_time (pass 1 75 (Some 160) (0, cfg0)) - 61 \<le> 30"
    and e3: "i_cur_time (pass 1 91 (Some 160) (0, cfg0)) - 61 \<le> 30"
    by (simp_all add: pass_def)
  from e1 e2 e3 c d have e: "\<forall>x\<in>set ?es.
      i_cur_time x - i_time_update ?e
        \<le> update_time (r_cfg (snd (iteration False (state_at 0 100) ?e)))"
    by simp
  from timers_after_check[of "state_at 0 100" ?e False ?es] a b c
  have f: "r_last_update_check (snd (iteration False (state_at 0 100) ?e)) = 61"
    and g: "r_last_config_check (snd (iteration False (state_at 0 100) ?e)) = 61"
    by simp_all
  from timers_after_check[of "state_at 0 100" ?e False ?es] a e
  have h: "\<not> reload_performed (fst (control_loop False
      (snd (iteration False (state_at 0 100) ?e)) ?es))"
    by blast
  have k: "reload_performed (fst (control_loop False
        (snd (iteration False (state_at 0 100) (pass 1 61 (Some 150) (- 1, cfg0))))
        [pass 1 62 (Some 160) (0, cfg0), pass 1 75 (Some 160) (0, cfg0),
         pass 1 92 (Some 160) (0, cfg0)]))"
    by (simp add: reload_performed_def state_at_def run_defs)
  show ?thesis
    by (intro conjI a b f g e1 e2 e3 h k)
qed

subsection \<open>C6: the end time of a bounded run\<close>

lemma end_time_of_exact:
  assumes "0 < t" and "0 \<le> now" and "now + t < 2 ^ 32"
  shows "uint (end_time_of t now) = now + t" and "0 < end_time_of t now"
proof -
  have "uint (word_of_int (now + t) :: 32 word) = (now + t) mod 2 ^ 32"
    unfolding uint_word_of_int by simp
  with assms show u: "uint (end_time_of t now) = now + t"
    unfolding end_time_of_def by (simp only: if_True) simp
  from assms u have "uint (end_time_of t now) \<noteq> 0"
    by simp
  then have "end_time_of t now \<noteq> 0"
    by auto
  then show "0 < end_time_of t now"
    by (simp add: word_gt_0)
qed

lemma loop_stops_at:
  assumes "0 < r_end_time st" and "uint (r_end_time st) \<le> i_cur_time e"
  shows "\<exists>st'. control_loop rl st (pre @ e # post) = (fst (control_loop rl st pre), Exited st')"
  using assms
proof (induction pre arbitrary: st)
  case Nil
  then show ?case by (simp add: end_reached_def)
next
  case (Cons x pre)
  show ?case
  proof (cases "i_cont x = 0 \<or> end_reached st x")
    case True
    then show ?thesis by auto
  next
    case False
    from Cons.prems have
      "0 < r_end_time (snd (iteration rl st x))"
      "uint (r_end_time (snd (iteration rl st x))) \<le> i_cur_time e"
      by (simp_all add: iteration_frame)
    from Cons.IH[OF this] obtain st' where
      "control_loop rl (snd (iteration rl st x)) (pre @ e # post) =
         (fst (control_loop rl (snd (iteration rl st x)) pre), Exited st')"
      by blast
    with False show ?thesis by (simp add: then_do_def)
  qed
qed

lemma loop_runs_while:
  assumes "\<forall>x\<in>set es. i_cont x \<noteq> 0 \<and> \<not> end_reached st x"
  shows "\<exists>tr st'. control_loop rl st es = (tr, Running st') \<and>
           length (filter is_usleep tr) = length es"
  using assms
proof (induction es arbitrary: st)
  case Nil
  then show ?case by simp
next
  case (Cons x es)
  have "end_reached (snd (iteration rl st x)) y = end_reached st y" for y
    by (simp add: end_reached_def iteration_frame)
  with Cons.prems have "\<forall>y\<in>set es. i_cont y \<noteq> 0 \<and> \<not> end_reached (snd (iteration rl st x)) y"
    by simp
  from Cons.IH[OF this] obtain tr st' where
    "control_loop rl (snd (iteration rl st x)) es = (tr, Running st')"
    "length (filter is_usleep tr) = length es"
    by blast
  with Cons.prems show ?case
    by (simp add: then_do_def iteration_usleep)
qed

text \<open>
  C6 says that a run with a positive duration stops within one display interval after
  the duration has elapsed, signal or no signal.  Line 257 adds the duration to the clock
  reading, a \<open>time_t\<close>, and stores the sum in \<open>end_time\<close>, an \<open>unsigned int\<close>; line 279
  takes an \<open>end_time\<close> of 0 to mean that no end time is set.  When the sum is a multiple
  of \<open>2 ^ 32\<close> the stored value is 0: the run has a positive duration and is never stopped
  by it.  Every pass runs in full and ends in its sleep, at any clock reading, as long as
  the flag is set, and the process is still in its loop after any number of passes.
\<close>

theorem end_time_wraps_to_unbounded:
  assumes "maps_found env" and "0 < cli_time (s_cli env)"
    and "(s_time_end env + cli_time (s_cli env)) mod 2 ^ 32 = 0"
    and "\<forall>x\<in>set es. i_cont x \<noteq> 0"
  shows "r_end_time (initial_state rl env) = 0 \<and>
         snd (main rl env es d) = None \<and>
         length (filter is_usleep (fst (main rl env es d))) = length es"
proof -
  from assms(3) have "(2::int) ^ LENGTH(32) dvd s_time_end env + cli_time (s_cli env)"
    by (simp add: dvd_eq_mod_eq_0)
  then have "(word_of_int (s_time_end env + cli_time (s_cli env)) :: 32 word) = 0"
    by (simp only: word_of_int_eq_0_iff)
  with assms(2) have z: "r_end_time (initial_state rl env) = 0"
    by (simp only: initial_state_def end_time_of_def if_True run_state.simps)
  with assms(4) have "\<forall>x\<in>set es. i_cont x \<noteq> 0 \<and> \<not> end_reached (initial_state rl env) x"
    by (simp add: end_reached_def)
  from loop_runs_while[OF this, of rl] obtain tr st' where
    l: "control_loop rl (initial_state rl env) es = (tr, Running st')"
    and n: "length (filter is_usleep tr) = length es"
    by blast
  obtain t0 where s: "startup rl env = (t0, Inr (initial_state rl env))"
    using startup_reaches_loop[OF assms(1), of rl] by (cases "startup rl env") simp
  have "filter is_usleep t0 = []"
    using startup_no_usleep[of rl env] s by simp
  with s l n z show ?thesis
    by (simp add: main_def)
qed

text \<open>
  A run of 5 seconds started at clock reading 4294967291, the flag set throughout.  The
  duration has elapsed at the second pass; that pass and the one 104 seconds later run
  in full, and the process is still in its loop.
\<close>

theorem end_time_wraps_to_unbounded_witness:
  "maps_found env_wrap \<and> 0 < cli_time (s_cli env_wrap) \<and>
   (s_time_end env_wrap + cli_time (s_cli env_wrap)) mod 2 ^ 32 = 0 \<and>
   i_cont (pass 1 4294967292 None (0, cfg0)) \<noteq> 0 \<and>
   i_cont (pass 1 4294967296 None (0, cfg0)) \<noteq> 0 \<and>
   i_cont (pass 1 4294967400 None (0, cfg0)) \<noteq> 0 \<and>
   s_time_end env_wrap + cli_time (s_cli env_wrap) \<le> i_cur_time (pass 1 4294967296 None (0, cfg0)) \<and>
   r_end_time (initial_state False env_wrap) = 0 \<and>
   snd (main False env_wrap
     [pass 1 4294967292 None (0, cfg0), pass 1 4294967296 None (0, cfg0),
      pass 1 4294967400 None (0, cfg0)] shut0) = None \<and>
   length (filter is_usleep (fst (main False env_wrap
     [pass 1 4294967292 None (0, cfg0), pass 1 4294967296 None (0, cfg0),
      pass 1 4294967400 None (0, cfg0)] shut0))) = 3 \<and>
   fst (control_loop False (initial_state False env_wrap)
     [pass 1 4294967292 None (0, cfg0), pass 1 4294967296 None (0, cfg0),
      pass 1 4294967400 None (0, cfg0)]) =
     [CalcStats 5 4 0, Usleep 1000000, CalcStats 5 4 0, Usleep 1000000,
      Stat ''xdpfwd.conf'', CalcStats 5 4 0, Usleep 1000000]"
proof -
  let ?es = "[pass 1 4294967292 None (0, cfg0), pass 1 4294967296 None (0, cfg0),
    pass 1 4294967400 None (0, cfg0)]"
  have a: "maps_found env_wrap"
    by (simp add: maps_found_def attach_succeeds_def reaches_ifindex_def env_wrap_def
        env0_def cli0_def cfg0_def)
  have b: "0 < cli_time (s_cli env_wrap)"
    by (simp add: env_wrap_def)
  have c: "(s_time_end env_wrap + cli_time (s_cli env_wrap)) mod 2 ^ 32 = 0"
    by (simp add: env_wrap_def)
  have d1: "i_cont (pass 1 4294967292 None (0, cfg0)) \<noteq> 0"
    and d2: "i_cont (pass 1 4294967296 None (0, cfg0)) \<noteq> 0"
    and d3: "i_cont (pass 1 4294967400 None (0, cfg0)) \<noteq> 0"
    by (simp_all add: pass_def)
  from d1 d2 d3 have d: "\<forall>x\<in>set ?es. i_cont x \<noteq> 0"
    by simp
  have e: "s_time_end env_wrap + cli_time (s_cli env_wrap)
      \<le> i_cur_time (pass 1 4294967296 None (0, cfg0))"
    by (simp add: env_wrap_def pass_def)
  from end_time_wraps_to_unbounded[OF a b c d, of False shut0]
  have f: "r_end_time (initial_state False env_wrap) = 0"
    and g: "snd (main False env_wrap ?es shut0) = None"
    and h: "length (filter is_usleep (fst (main False env_wrap ?es shut0))) = 3"
    by simp_all
  have k: "fst (control_loop False (initial_state False env_wrap) ?es) =
     [CalcStats 5 4 0, Usleep 1000000, CalcStats 5 4 0, Usleep 1000000,
      Stat ''xdpfwd.conf'', CalcStats 5 4 0, Usleep 1000000]"
    by (simp add: env_wrap_def run_defs)
  show ?thesis
    by (intro conjI a b c d1 d2 d3 e f g h k)
qed

text \<open>
  For comparison, the runs whose end time fits: with a start clock of at least 0 and a sum
  below \<open>2 ^ 32\<close>, every pass whose clock reading is below start + duration runs in full
  while the flag is set, and at a pass whose clock reading has reached start + duration
  the loop is left, whatever the flag says, without another event.  With a duration of 0
  the end-time check never fires.
\<close>

lemma run_with_fitting_end_time:
  "(0 < cli_time (s_cli env) \<and> 0 \<le> s_time_end env \<and>
    s_time_end env + cli_time (s_cli env) < 2 ^ 32 \<longrightarrow>
      ((\<forall>x\<in>set pre. i_cont x \<noteq> 0 \<and> i_cur_time x < s_time_end env + cli_time (s_cli env)) \<longrightarrow>
         (\<exists>tr st'. control_loop rl (initial_state rl env) pre = (tr, Running st') \<and>
            length (filter is_usleep tr) = length pre)) \<and>
      (s_time_end env + cli_time (s_cli env) \<le> i_cur_time e \<longrightarrow>
         (\<exists>st'. control_loop rl (initial_state rl env) (pre @ e # post) =
            (fst (control_loop rl (initial_state rl env) pre), Exited st')))) \<and>
   (cli_time (s_cli env) = 0 \<and> (\<forall>x\<in>set pre. i_cont x \<noteq> 0) \<longrightarrow>
      (\<exists>tr st'. control_loop rl (initial_state rl env) pre = (tr, Running st') \<and>
         length (filter is_usleep tr) = length pre))"
proof (intro conjI impI)
  assume a: "0 < cli_time (s_cli env) \<and> 0 \<le> s_time_end env \<and>
    s_time_end env + cli_time (s_cli env) < 2 ^ 32"
  have r: "r_end_time (initial_state rl env) = end_time_of (cli_time (s_cli env)) (s_time_end env)"
    by (simp add: initial_state_def)
  from a have u: "uint (end_time_of (cli_time (s_cli env)) (s_time_end env)) =
      s_time_end env + cli_time (s_cli env)"
    and p: "0 < end_time_of (cli_time (s_cli env)) (s_time_end env)"
    by (simp_all add: end_time_of_exact)
  {
    assume "\<forall>x\<in>set pre. i_cont x \<noteq> 0 \<and> i_cur_time x < s_time_end env + cli_time (s_cli env)"
    with r u have "\<forall>x\<in>set pre. i_cont x \<noteq> 0 \<and> \<not> end_reached (initial_state rl env) x"
      by (fastforce simp: end_reached_def)
    then show "\<exists>tr st'. control_loop rl (initial_state rl env) pre = (tr, Running st') \<and>
        length (filter is_usleep tr) = length pre"
      by (rule loop_runs_while)
  }
  {
    assume "s_time_end env + cli_time (s_cli env) \<le> i_cur_time e"
    with r u p show "\<exists>st'. control_loop rl (initial_state rl env) (pre @ e # post) =
        (fst (control_loop rl (initial_state rl env) pre), Exited st')"
      by (intro loop_stops_at) simp_all
  }
next
  assume b: "cli_time (s_cli env) = 0 \<and> (\<forall>x\<in>set pre. i_cont x \<noteq> 0)"
  then have "r_end_time (initial_state rl env) = 0"
    by (simp add: initial_state_def end_time_of_def)
  with b have "\<forall>x\<in>set pre. i_cont x \<noteq> 0 \<and> \<not> end_reached (initial_state rl env) x"
    by (simp add: end_reached_def)
  then show "\<exists>tr st'. control_loop rl (initial_state rl env) pre = (tr, Running st') \<and>
      length (filter is_usleep tr) = length pre"
    by (rule loop_runs_while)
qed

subsection \<open>C8: a stale pin does not block start-up\<close>

text \<open>
  C8.  A start-up that has found both mandatory maps and has pinning enabled ends with
  these calls: the announcement, \<open>get_bpf_obj\<close>, the unpin of \<open>map_fwd_rules\<close> under
  \<open>XDP_MAP_PIN_DIR\<close>, directly followed (no message in between, whatever the unpin
  returned) by the pin of the same map under the same directory, then a level-1 warning
  when the pin failed and a level-3 message when it did not, then the first rule load,
  the signal handlers and the CPU count.  Start-up then arrives at the control loop,
  whatever the unpin and the pin returned; and the warning of \<open>unpin_needed_maps\<close> is
  nowhere in the trace of start-up.
\<close>

theorem stale_pin_does_not_block_startup:
  assumes "maps_found env" and "pin_maps (snd (s_load_config env)) \<noteq> 0"
  shows "(\<exists>pre. fst (startup rl env) = pre @
            [LogMsg 2 0 MsgPinning, GetBpfObj,
             UnpinMap XDP_MAP_PIN_DIR ''map_fwd_rules'',
             PinMap XDP_MAP_PIN_DIR ''map_fwd_rules'',
             (if s_pin_map env \<noteq> 0 then LogMsg 1 0 WarnPinFailed else LogMsg 3 0 MsgPinned),
             LogMsg 2 0 MsgUpdatingRules,
             UpdateFwdRules (s_map_fwd_rules env) (snd (s_load_config env)),
             Signal SIGINT, Signal SIGTERM, GetNprocsConf, LogMsg 4 0 MsgCpus]) \<and>
         snd (startup rl env) = Inr (initial_state rl env) \<and>
         LogMsg 1 0 WarnUnpinFailed \<notin> set (fst (startup rl env))"
proof -
  from assms(1) have a: "attach_succeeds env"
    and m: "\<not> s_map_stats env < 0" "\<not> s_map_fwd_rules env < 0"
    by (simp_all add: maps_found_def)
  have tail: "main_prepare_loop rl env =
      ([LogMsg 2 0 MsgPinning, GetBpfObj,
        UnpinMap XDP_MAP_PIN_DIR ''map_fwd_rules'',
        PinMap XDP_MAP_PIN_DIR ''map_fwd_rules'',
        (if s_pin_map env \<noteq> 0 then LogMsg 1 0 WarnPinFailed else LogMsg 3 0 MsgPinned),
        LogMsg 2 0 MsgUpdatingRules,
        UpdateFwdRules (s_map_fwd_rules env) (snd (s_load_config env)),
        Signal SIGINT, Signal SIGTERM, GetNprocsConf, LogMsg 4 0 MsgCpus],
       Inr (initial_state rl env))"
    using assms(2)
    by (simp add: main_prepare_loop_def pin_maps_setup_def unpin_needed_maps_def)
  have maps: "main_get_maps rl env =
      then_do ([LogMsg 2 0 MsgRetrievingMaps, GetMapFd ''map_stats'', LogMsg 3 0 MsgMapStatsFd,
                GetMapFd ''map_fwd_rules'', LogMsg 3 0 MsgMapFwdRulesFd] @
               rule_logging_setup rl env)
        (main_prepare_loop rl env)"
    using m by (simp add: main_get_maps_def then_do_def)
  have "\<exists>pre. fst (startup rl env) = pre @ fst (main_prepare_loop rl env)"
    unfolding startup_attach[OF a] maps by (simp del: append_assoc add: append_assoc[symmetric])
  then have 1: "\<exists>pre. fst (startup rl env) = pre @
            [LogMsg 2 0 MsgPinning, GetBpfObj,
             UnpinMap XDP_MAP_PIN_DIR ''map_fwd_rules'',
             PinMap XDP_MAP_PIN_DIR ''map_fwd_rules'',
             (if s_pin_map env \<noteq> 0 then LogMsg 1 0 WarnPinFailed else LogMsg 3 0 MsgPinned),
             LogMsg 2 0 MsgUpdatingRules,
             UpdateFwdRules (s_map_fwd_rules env) (snd (s_load_config env)),
             Signal SIGINT, Signal SIGTERM, GetNprocsConf, LogMsg 4 0 MsgCpus]"
    unfolding tail by simp
  have 2: "snd (startup rl env) = Inr (initial_state rl env)"
    unfolding startup_attach[OF a] maps tail by simp
  have 3: "LogMsg 1 0 WarnUnpinFailed \<notin> set (fst (startup rl env))"
    unfolding startup_attach[OF a] maps tail by (simp add: rule_logging_setup_def)
  from 1 2 3 show ?thesis by blast
qed

text \<open>
  Start-up with a stale pin in the way of both calls: the unpin fails (\<open>-2\<close>) and the pin
  fails (\<open>-17\<close>).  The whole trace, and the process in its control loop.
\<close>

theorem stale_pin_does_not_block_startup_witness:
  "maps_found (env0\<lparr>s_pin_map := - 17\<rparr>) \<and>
   pin_maps (snd (s_load_config (env0\<lparr>s_pin_map := - 17\<rparr>))) \<noteq> 0 \<and>
   s_unpin_map (env0\<lparr>s_pin_map := - 17\<rparr>) \<noteq> 0 \<and>
   fst (startup False (env0\<lparr>s_pin_map := - 17\<rparr>)) =
     [ParseCli, SetCfgDefaults, LoadConfig ''xdpfwd.conf'' (cfg_overrides cli0), PrintToolInfo,
      LogMsg 2 0 MsgRaisingRlimit, Setrlimit, LogMsg 2 0 MsgRetrievingIfidx,
      IfNametoindex (Some ''eth0''), LogMsg 2 0 MsgLoadingProg, SetLibbpfLogMode 1,
      LoadBpfObj XDP_OBJ_PATH, LogMsg 2 0 MsgAttaching, AttachXdp 2 0 0 0,
      LogMsg 1 0 MsgAttachedMode, LogMsg 2 0 MsgRetrievingMaps, GetMapFd ''map_stats'',
      LogMsg 3 0 MsgMapStatsFd, GetMapFd ''map_fwd_rules'', LogMsg 3 0 MsgMapFwdRulesFd,
      LogMsg 2 0 MsgPinning, GetBpfObj, UnpinMap XDP_MAP_PIN_DIR ''map_fwd_rules'',
      PinMap XDP_MAP_PIN_DIR ''map_fwd_rules'', LogMsg 1 0 WarnPinFailed,
      LogMsg 2 0 MsgUpdatingRules, UpdateFwdRules 6 cfg0, Signal SIGINT, Signal SIGTERM,
      GetNprocsConf, LogMsg 4 0 MsgCpus] \<and>
   snd (startup False (env0\<lparr>s_pin_map := - 17\<rparr>)) =
     Inr (initial_state False (env0\<lparr>s_pin_map := - 17\<rparr>)) \<and>
   snd (main False (env0\<lparr>s_pin_map := - 17\<rparr>) [] shut0) = None"
proof -
  let ?env = "env0\<lparr>s_pin_map := - 17\<rparr>"
  have a: "maps_found ?env"
    by (simp add: maps_found_def attach_succeeds_def reaches_ifindex_def env0_def cli0_def
        cfg0_def)
  have b: "pin_maps (snd (s_load_config ?env)) \<noteq> 0"
    by (simp add: env0_def cfg0_def)
  have c: "s_unpin_map ?env \<noteq> 0"
    by (simp add: env0_def)
  have d: "fst (startup False ?env) =
     [ParseCli, SetCfgDefaults, LoadConfig ''xdpfwd.conf'' (cfg_overrides cli0), PrintToolInfo,
      LogMsg 2 0 MsgRaisingRlimit, Setrlimit, LogMsg 2 0 MsgRetrievingIfidx,
      IfNametoindex (Some ''eth0''), LogMsg 2 0 MsgLoadingProg, SetLibbpfLogMode 1,
      LoadBpfObj XDP_OBJ_PATH, LogMsg 2 0 MsgAttaching, AttachXdp 2 0 0 0,
      LogMsg 1 0 MsgAttachedMode, LogMsg 2 0 MsgRetrievingMaps, GetMapFd ''map_stats'',
      LogMsg 3 0 MsgMapStatsFd, GetMapFd ''map_fwd_rules'', LogMsg 3 0 MsgMapFwdRulesFd,
      LogMsg 2 0 MsgPinning, GetBpfObj, UnpinMap XDP_MAP_PIN_DIR ''map_fwd_rules'',
      PinMap XDP_MAP_PIN_DIR ''map_fwd_rules'', LogMsg 1 0 WarnPinFailed,
      LogMsg 2 0 MsgUpdatingRules, UpdateFwdRules 6 cfg0, Signal SIGINT, Signal SIGTERM,
      GetNprocsConf, LogMsg 4 0 MsgCpus]"
    by (simp add: startup_defs then_do_def env0_def cli0_def cfg0_def)
  from stale_pin_does_not_block_startup[OF a b, of False]
  have e: "snd (startup False ?env) = Inr (initial_state False ?env)"
    by blast
  have f: "snd (main False ?env [] shut0) = None"
    by (simp add: run_defs)
  show ?thesis
    by (intro conjI a b c d e f)
qed

subsection \<open>C9: the sleep time is fixed before the loop\<close>

lemma loop_usleep:
  "ev \<in> set (fst (control_loop rl st es)) \<Longrightarrow> is_usleep ev \<Longrightarrow> ev = Usleep (r_sleep_time st)"
proof (induction es arbitrary: st)
  case Nil
  then show ?case by simp
next
  case (Cons e es)
  show ?case
  proof (cases "i_cont e = 0 \<or> end_reached st e")
    case True
    from True Cons.prems show ?thesis by (auto split: if_splits)
  next
    case False
    from False Cons.prems have
      "ev \<in> set (fst (iteration rl st e)) \<or>
       ev \<in> set (fst (control_loop rl (snd (iteration rl st e)) es))"
      by (auto split: if_splits)
    then show ?thesis
    proof
      assume "ev \<in> set (fst (iteration rl st e))"
      with Cons.prems(2) have "ev \<in> set (filter is_usleep (fst (iteration rl st e)))"
        by simp
      then show ?thesis by (simp add: iteration_usleep)
    next
      assume "ev \<in> set (fst (control_loop rl (snd (iteration rl st e)) es))"
      from Cons.IH[OF this Cons.prems(2)] show ?thesis
        by (simp add: iteration_frame)
    qed
  qed
qed

text \<open>
  C9: \<open>sleep_time\<close> is computed once, on line 263, from the configuration that the first
  \<open>load_config\<close> produced, and the loop never assigns it.  So every \<open>usleep\<close> of a run, before
  and after any reload, sleeps for that one value: the display interval of the initial
  configuration times 1000, truncated to 32 bits.
\<close>

theorem sleep_time_fixed_at_startup:
  "\<forall>ev\<in>set (fst (main rl env es d)).
     is_usleep ev \<longrightarrow> ev = Usleep (sleep_time_of (snd (s_load_config env)))"
proof (cases "startup rl env")
  case (Pair t0 r)
  have t0: "filter is_usleep t0 = []"
    using startup_no_usleep[of rl env] Pair by simp
  show ?thesis
  proof (cases r)
    case (Inl c)
    with Pair t0 show ?thesis
      by (auto simp: main_def filter_empty_conv)
  next
    case (Inr st)
    with Pair have st: "st = initial_state rl env"
      using startup_state[of rl env st] by simp
    then have sl: "r_sleep_time st = sleep_time_of (snd (s_load_config env))"
      by (simp add: initial_state_def)
    obtain t1 r1 where loop: "control_loop rl st es = (t1, r1)"
      by (cases "control_loop rl st es")
    have t1: "\<And>ev. ev \<in> set t1 \<Longrightarrow> is_usleep ev \<Longrightarrow>
        ev = Usleep (sleep_time_of (snd (s_load_config env)))"
      using loop_usleep[of _ rl st es] loop sl by simp
    have t2: "\<And>st'. filter is_usleep (fst (shutdown rl st' d)) = []"
      by (rule shutdown_no_usleep)
    show ?thesis
      using Pair Inr loop t0 t1 t2
      by (cases r1) (auto simp: main_def filter_empty_conv)
  qed
qed

text \<open>
  A run of three passes.  The first pass finds the file changed and reloads it; the new
  configuration has a display interval of 5000 instead of 1000.  Both sleeps of the run
  last 1000000 microseconds, and none lasts 5000000.
\<close>

theorem sleep_time_fixed_at_startup_witness:
  "UpdateFwdRules 6 cfg1 \<in> set (fst (main False env0
      [pass 1 1031 (Some 1010) (0, cfg1), pass 1 1032 None (0, cfg1), pass 0 1033 None (0, cfg1)]
      shut0)) \<and>
   filter is_usleep (fst (main False env0
      [pass 1 1031 (Some 1010) (0, cfg1), pass 1 1032 None (0, cfg1), pass 0 1033 None (0, cfg1)]
      shut0)) = [Usleep 1000000, Usleep 1000000] \<and>
   Usleep (sleep_time_of cfg1) \<notin> set (fst (main False env0
      [pass 1 1031 (Some 1010) (0, cfg1), pass 1 1032 None (0, cfg1), pass 0 1033 None (0, cfg1)]
      shut0))"
proof -
  let ?tr = "fst (main False env0
      [pass 1 1031 (Some 1010) (0, cfg1), pass 1 1032 None (0, cfg1), pass 0 1033 None (0, cfg1)]
      shut0)"
  have a: "UpdateFwdRules 6 cfg1 \<in> set ?tr"
    by (simp add: run_defs cfg1_def)
  have b: "filter is_usleep ?tr = [Usleep 1000000, Usleep 1000000]"
    by (simp add: run_defs cfg1_def)
  have c: "sleep_time_of cfg1 \<noteq> sleep_time_of (snd (s_load_config env0))"
    by (simp add: sleep_time_of_def cfg1_def cfg0_def env0_def)
  have "Usleep (sleep_time_of cfg1) \<notin> set ?tr"
  proof
    assume "Usleep (sleep_time_of cfg1) \<in> set ?tr"
    with sleep_time_fixed_at_startup[of False env0 _ shut0]
    have "Usleep (sleep_time_of cfg1) = Usleep (sleep_time_of (snd (s_load_config env0)))"
      by fastforce
    with c show False by simp
  qed
  with a b show ?thesis by simp
qed

subsection \<open>C10: a reload whose parse fails\<close>

text \<open>
  C10: when the check is due, the file is newer and \<open>load_config\<close> returns non-zero, the
  pass logs the warning of line 292 at level 1, still calls \<open>update_fwd_rules\<close> with the
  configuration that is then in \<open>cfg\<close>, and sets \<open>last_config_check\<close> and
  \<open>last_update_check\<close> to the clock readings of lines 299 and 309.  These four calls open the
  trace of the pass.
\<close>

theorem failed_reload_still_updates:
  assumes "update_due st e" and "stat_newer st e" and "fst (i_load_config e) \<noteq> 0"
  shows "(\<exists>rest. fst (iteration rl st e) =
            [Stat (cli_cfg_file (r_cli st)),
             LoadConfig (cli_cfg_file (r_cli st)) (cfg_overrides (r_cli st)),
             LogMsg 1 0 WarnReloadFailed,
             UpdateFwdRules (r_map_fwd_rules st) (r_cfg (snd (iteration rl st e)))] @ rest) \<and>
         r_cfg (snd (iteration rl st e)) = snd (i_load_config e) \<and>
         r_last_config_check (snd (iteration rl st e)) = i_time_config e \<and>
         r_last_update_check (snd (iteration rl st e)) = i_time_update e"
  using assms
  by (simp add: iteration_def auto_update_def reload_config_def split: prod.splits)

theorem failed_reload_still_updates_witness:
  "update_due (state_at 0 100) (pass 1 61 (Some 150) (- 1, cfg0)) \<and>
   stat_newer (state_at 0 100) (pass 1 61 (Some 150) (- 1, cfg0)) \<and>
   fst (i_load_config (pass 1 61 (Some 150) (- 1, cfg0))) \<noteq> 0 \<and>
   fst (iteration False (state_at 0 100) (pass 1 61 (Some 150) (- 1, cfg0))) =
     [Stat ''xdpfwd.conf'', LoadConfig ''xdpfwd.conf'' (cfg_overrides cli0),
      LogMsg 1 0 WarnReloadFailed, UpdateFwdRules 6 cfg0, CalcStats 5 4 0, Usleep 1000000] \<and>
   r_last_config_check (snd (iteration False (state_at 0 100) (pass 1 61 (Some 150) (- 1, cfg0)))) = 61 \<and>
   r_last_update_check (snd (iteration False (state_at 0 100) (pass 1 61 (Some 150) (- 1, cfg0)))) = 61"
proof -
  let ?e = "pass 1 61 (Some 150) (- 1, cfg0)"
  have a: "update_due (state_at 0 100) ?e"
    by (simp add: update_due_def state_at_def initial_state_def env0_def cfg0_def pass_def)
  have b: "stat_newer (state_at 0 100) ?e"
    by (simp add: stat_newer_def state_at_def initial_state_def env0_def pass_def)
  have c: "fst (i_load_config ?e) \<noteq> 0"
    by (simp add: pass_def)
  have d: "fst (iteration False (state_at 0 100) ?e) =
     [Stat ''xdpfwd.conf'', LoadConfig ''xdpfwd.conf'' (cfg_overrides cli0),
      LogMsg 1 0 WarnReloadFailed, UpdateFwdRules 6 cfg0, CalcStats 5 4 0, Usleep 1000000]"
    by (simp add: state_at_def run_defs)
  have e: "i_time_update ?e = 61" "i_time_config ?e = 61"
    by (simp_all add: pass_def)
  from failed_reload_still_updates[OF a b c, of False] a b c d e
  show ?thesis by simp
qed

end
